theory Spec2Isabelle
  imports Main "HOL-Library.Word" "HOL-Library.AList" "HOL-Library.Sublist"
begin

section \<open>Go values of the client package\<close>

text \<open>
  The development embeds \<^verbatim>\<open>client/client.go\<close>: the \<^verbatim>\<open>Client\<close> that builds and
  sends a request and the \<^verbatim>\<open>Result\<close> whose \<^verbatim>\<open>Into\<close> decodes the response.
  Go's \<^verbatim>\<open>int\<close> is read as a 64-bit two's complement word and \<^verbatim>\<open>int16\<close> as a
  16-bit one; a Go string is a list of bytes.
\<close>

type_synonym go_int = "64 word"
type_synonym int16 = "16 word"
type_synonym Duration = "64 word"

text \<open>
  \<^verbatim>\<open>map[string][]string\<close> (\<^verbatim>\<open>http.Header\<close>, \<^verbatim>\<open>courier.Metadata\<close>,
  \<^verbatim>\<open>textproto.MIMEHeader\<close>) is an association list with one entry per key. The order of
  the entries is the order in which a \<^verbatim>\<open>range\<close> loop of this execution visits them
  (Go leaves that order unspecified); lookups go through \<open>map_of\<close>. A nil map that
  the code only reads is the empty list; the one map that the code writes and that may be
  nil, the map returned by the \<^verbatim>\<open>Header()\<close> method of a target, is an option, with
  \<open>None\<close> for nil.
\<close>

type_synonym http_Header = "(string \<times> string list) list"

datatype 'a outcome = Returned 'a | Panicked

subsection \<open>Formatting\<close>

text \<open>The verb \<^verbatim>\<open>%d\<close> of \<^verbatim>\<open>fmt.Sprintf\<close>: a signed integer in decimal.\<close>

definition digit :: "nat \<Rightarrow> char" where
  "digit d = char_of (of_char CHR ''0'' + d)"

fun decimal :: "nat \<Rightarrow> string" where
  "decimal n = (if n < 10 then [digit n] else decimal (n div 10) @ [digit (n mod 10)])"

declare decimal.simps [simp del]

definition fmt_d :: "int \<Rightarrow> string" where
  "fmt_d i = (if i < 0 then ''-'' @ decimal (nat (- i)) else decimal (nat i))"

subsection \<open>Strings\<close>

text \<open>
  The helpers of \<^verbatim>\<open>strings\<close> and \<^verbatim>\<open>unicode\<close> that the code reaches, on ASCII:
  header names and media types are ASCII, and a byte above 127 is neither a letter, a
  space nor a token character here.
\<close>

definition isUpper :: "char \<Rightarrow> bool" where
  "isUpper c = (of_char CHR ''A'' \<le> (of_char c :: nat) \<and> (of_char c :: nat) \<le> of_char CHR ''Z'')"

definition isLower :: "char \<Rightarrow> bool" where
  "isLower c = (of_char CHR ''a'' \<le> (of_char c :: nat) \<and> (of_char c :: nat) \<le> of_char CHR ''z'')"

definition isDigit :: "char \<Rightarrow> bool" where
  "isDigit c = (of_char CHR ''0'' \<le> (of_char c :: nat) \<and> (of_char c :: nat) \<le> of_char CHR ''9'')"

definition toLower :: "char \<Rightarrow> char" where
  "toLower c = (if isUpper c then char_of ((of_char c :: nat) + 32) else c)"

definition toUpper :: "char \<Rightarrow> char" where
  "toUpper c = (if isLower c then char_of ((of_char c :: nat) - 32) else c)"

definition ToLower :: "string \<Rightarrow> string" where
  "ToLower s = map toLower s"

definition IsSpace :: "char \<Rightarrow> bool" where
  "IsSpace c = ((of_char c :: nat) \<in> {9, 10, 11, 12, 13, 32})"

definition TrimLeftSpace :: "string \<Rightarrow> string" where
  "TrimLeftSpace s = dropWhile IsSpace s"

definition TrimSpace :: "string \<Rightarrow> string" where
  "TrimSpace s = rev (dropWhile IsSpace (rev (dropWhile IsSpace s)))"

definition HasPrefix :: "string \<Rightarrow> string \<Rightarrow> bool" where
  "HasPrefix s pre = prefix pre s"

subsection \<open>Header maps\<close>

text \<open>
  \<^verbatim>\<open>textproto.CanonicalMIMEHeaderKey\<close>: a key made of header-field bytes only gets an
  upper-case first letter and an upper-case letter after each hyphen, the other letters
  in lower case; any other key is returned as it is.
\<close>

definition validHeaderFieldByte :: "char \<Rightarrow> bool" where
  "validHeaderFieldByte c =
     (isUpper c \<or> isLower c \<or> isDigit c \<or>
      c \<in> set (''!#$%&*+-.^_|~'' @ [CHR 0x27, CHR 0x60]))"

fun canonicalize :: "bool \<Rightarrow> string \<Rightarrow> string" where
  "canonicalize upper [] = []"
| "canonicalize upper (c # cs) =
     (let c' = (if upper \<and> isLower c then toUpper c
                else if \<not> upper \<and> isUpper c then toLower c
                else c)
      in c' # canonicalize (c' = CHR ''-'') cs)"

definition CanonicalMIMEHeaderKey :: "string \<Rightarrow> string" where
  "CanonicalMIMEHeaderKey s = (if list_all validHeaderFieldByte s then canonicalize True s else s)"

text \<open>The values stored under a key; a missing key has none.\<close>

definition values_of :: "http_Header \<Rightarrow> string \<Rightarrow> string list" where
  "values_of h key = (case map_of h key of None \<Rightarrow> [] | Some vs \<Rightarrow> vs)"

text \<open>\<^verbatim>\<open>func (h Header) Add(key, value string)\<close> of \<^verbatim>\<open>net/http\<close>: appends under the
  canonical key.\<close>

definition Header_Add :: "string \<Rightarrow> string \<Rightarrow> http_Header \<Rightarrow> http_Header" where
  "Header_Add key v h =
     (let key = CanonicalMIMEHeaderKey key
      in AList.update key (values_of h key @ [v]) h)"

text \<open>
  \<^verbatim>\<open>courier.Metadata\<close>, from the courier library: \<^verbatim>\<open>Get\<close> is the first value
  under the key as it is spelled (no canonical form), or the empty string;
  \<^verbatim>\<open>Add\<close> appends values; \<^verbatim>\<open>FromMetas\<close> adds every entry of every metadata to
  one fresh map.
\<close>

definition Metadata_Get :: "http_Header \<Rightarrow> string \<Rightarrow> string" where
  "Metadata_Get m key = (case values_of m key of [] \<Rightarrow> [] | v # _ \<Rightarrow> v)"

definition Metadata_Add :: "string \<Rightarrow> string list \<Rightarrow> http_Header \<Rightarrow> http_Header" where
  "Metadata_Add key vs m = AList.update key (values_of m key @ vs) m"

definition FromMetas :: "http_Header list \<Rightarrow> http_Header" where
  "FromMetas metas = fold (\<lambda>meta m. fold (\<lambda>(key, vs). Metadata_Add key vs) meta m) metas []"

subsection \<open>Media types\<close>

text \<open>
  \<^verbatim>\<open>mime.ParseMediaType\<close> of the standard library, for its first result, the only one
  the code keeps: the text before the first semicolon, in lower case and trimmed, when it
  is \<^verbatim>\<open>token\<close> or \<^verbatim>\<open>token/token\<close>; the empty string when it is not, or when
  a parameter name is repeated. A parameter that does not parse ends the scan and keeps
  the media type.
\<close>

definition isTSpecial :: "char \<Rightarrow> bool" where
  "isTSpecial c = (c \<in> set (''()<>@,;:'' @ [CHR 0x5C, CHR 0x22] @ ''/[]?=''))"

definition isTokenChar :: "char \<Rightarrow> bool" where
  "isTokenChar c = (0x20 < (of_char c :: nat) \<and> (of_char c :: nat) < 0x7f \<and> \<not> isTSpecial c)"

definition consumeToken :: "string \<Rightarrow> string \<times> string" where
  "consumeToken v = (takeWhile isTokenChar v, dropWhile isTokenChar v)"

definition checkMediaTypeDisposition :: "string \<Rightarrow> bool" where
  "checkMediaTypeDisposition s =
     (let (typ, rest) = consumeToken s in
      if typ = [] then False
      else if rest = [] then True
      else if \<not> HasPrefix rest ''/'' then False
      else (let (subtype, rest) = consumeToken (tl rest) in
            if subtype = [] then False
            else if rest \<noteq> [] then False
            else True))"

fun consumeQuoted :: "string \<Rightarrow> string \<Rightarrow> (string \<times> string) option" where
  "consumeQuoted buffer [] = None"
| "consumeQuoted buffer [r] =
     (if r = CHR 0x22 then Some (buffer, []) else None)"
| "consumeQuoted buffer (r # c # v) =
     (if r = CHR 0x22 then Some (buffer, c # v)
      else if r = CHR 0x5C \<and> isTSpecial c then consumeQuoted (buffer @ [c]) v
      else if r = CHR 0x0D \<or> r = CHR 0x0A then None
      else consumeQuoted (buffer @ [r]) (c # v))"

definition consumeValue :: "string \<Rightarrow> string \<times> string" where
  "consumeValue v =
     (case v of
        [] \<Rightarrow> ([], [])
      | c # q \<Rightarrow>
          if c \<noteq> CHR 0x22 then consumeToken v
          else (case consumeQuoted [] q of Some (val, rest) \<Rightarrow> (val, rest) | None \<Rightarrow> ([], v)))"

definition consumeMediaParam :: "string \<Rightarrow> string \<times> string \<times> string" where
  "consumeMediaParam v =
     (let rest = TrimLeftSpace v in
      if \<not> HasPrefix rest '';'' then ([], [], v)
      else
        (let rest = TrimLeftSpace (tl rest);
             (param, rest) = consumeToken rest;
             param = ToLower param
         in if param = [] then ([], [], v)
            else
              (let rest = TrimLeftSpace rest in
               if \<not> HasPrefix rest ''='' then ([], [], v)
               else
                 (let rest = TrimLeftSpace (tl rest);
                      (val, rest2) = consumeValue rest
                  in if val = [] \<and> rest2 = rest then ([], [], v)
                     else (param, val, rest2)))))"

text \<open>
  The loop over the parameters. \<open>seen\<close> holds the names stored so far: the code keeps
  them in \<^verbatim>\<open>params\<close> and, for a name with an asterisk, in the continuation map of
  its base name, so a name is found again exactly when it was stored before.
\<close>

datatype param_scan = ParamsOk | InvalidMediaParameter | DuplicateParameter

function mediaParams :: "string \<Rightarrow> string list \<Rightarrow> param_scan" where
  "mediaParams v seen =
     (if v = [] then ParamsOk
      else
        (let v = TrimLeftSpace v in
         if v = [] then ParamsOk
         else
           (case consumeMediaParam v of
              (key, val, rest) \<Rightarrow>
                if key = [] then
                  (if TrimSpace rest = '';'' then ParamsOk else InvalidMediaParameter)
                else if key \<in> set seen then DuplicateParameter
                else mediaParams rest (key # seen))))"
  by pat_completeness auto
termination
proof (relation "measure (\<lambda>(v, seen). length v)")
  show "wf (measure (\<lambda>(v, seen). length v))"
    by simp
next
  fix v :: string and seen :: "string list" and x xa y xb ya
  assume v: "v \<noteq> []" and x: "x = TrimLeftSpace v"
    and p: "(xa, y) = consumeMediaParam x" "(xb, ya) = y" and key: "xa \<noteq> []"
  have quoted: "length rest \<le> length q"
    if "consumeQuoted b q = Some (val, rest)" for b q val rest
    using that by (induction b q rule: consumeQuoted.induct) (auto split: if_splits)
  have val: "length (snd (consumeValue r)) \<le> length r" for r
    by (cases r)
       (auto simp: consumeValue_def consumeToken_def length_dropWhile_le
             split: option.splits dest!: quoted intro: le_SucI length_dropWhile_le)
  have trim: "length (TrimLeftSpace r) \<le> length r" for r
    by (simp add: TrimLeftSpace_def length_dropWhile_le)
  have tok: "length (snd (consumeToken r)) \<le> length r" for r
    by (simp add: consumeToken_def length_dropWhile_le)
  have semi: "TrimLeftSpace x \<noteq> []"
    using p key by (auto simp: consumeMediaParam_def HasPrefix_def Let_def split: if_splits)
  let ?r1 = "TrimLeftSpace (tl (TrimLeftSpace x))"
  let ?r2 = "TrimLeftSpace (snd (consumeToken ?r1))"
  let ?r3 = "TrimLeftSpace (tl ?r2)"
  have "ya = snd (consumeValue ?r3)"
    using p key
    by (auto simp: consumeMediaParam_def Let_def split: if_splits prod.splits)
  moreover have "length (snd (consumeValue ?r3)) \<le> length ?r3"
    by (rule val)
  moreover have "length ?r3 \<le> length ?r2"
    using trim [of "tl ?r2"] by simp
  moreover have "length ?r2 \<le> length ?r1"
    using trim [of "snd (consumeToken ?r1)"] tok [of ?r1] by simp
  moreover have "length ?r1 < length (TrimLeftSpace x)"
    using trim [of "tl (TrimLeftSpace x)"] semi by (cases "TrimLeftSpace x") auto
  moreover have "length (TrimLeftSpace x) \<le> length v"
    using trim [of x] trim [of v] x by simp
  ultimately show "((ya, xa # seen), (v, seen)) \<in> measure (\<lambda>(v, seen). length v)"
    by simp
qed

declare mediaParams.simps [simp del]

definition ParseMediaType :: "string \<Rightarrow> string" where
  "ParseMediaType v =
     (let base = takeWhile (\<lambda>c. c \<noteq> CHR '';'') v;
          mediatype = TrimSpace (ToLower base)
      in if \<not> checkMediaTypeDisposition mediatype then []
         else
           (case mediaParams (drop (length base) v) [] of
              DuplicateParameter \<Rightarrow> []
            | _ \<Rightarrow> mediatype))"

subsection \<open>Errors\<close>

text \<open>
  Modelled from the spec: the error kinds of the client package. Their declaration (the
  type \<^verbatim>\<open>StatusError\<close> and its generated method \<^verbatim>\<open>StatusErr()\<close>) is not among the
  sources; the specification names the kinds \<^verbatim>\<open>RequestTransformFailed\<close>,
  \<^verbatim>\<open>RequestFailed\<close> and \<^verbatim>\<open>ReadFailed\<close>.
\<close>

datatype StatusError = RequestTransformFailed | ReadFailed | RequestFailed

text \<open>The fields of \<^verbatim>\<open>statuserror.StatusErr\<close> that the default error policy sets.\<close>

record StatusErr =
  Code :: go_int
  Msg :: string
  Sources :: "string list"

text \<open>
  A non-nil \<^verbatim>\<open>error\<close>: \<open>ClientError k desc\<close> is \<^verbatim>\<open>k.StatusErr().WithDesc(desc)\<close>,
  \<open>StatusErrPtr\<close> a \<^verbatim>\<open>*statuserror.StatusErr\<close> built field by field, and
  \<open>ExternalError\<close> any error of another package, by a name. A nil \<^verbatim>\<open>error\<close> is
  \<open>None\<close> of \<open>go_error option\<close>.
\<close>

datatype go_error =
    ClientError StatusError string
  | StatusErrPtr StatusErr
  | ExternalError string

subsection \<open>HTTP messages\<close>

record http_Request =
  Method :: string
  URL :: string
  ReqHeader :: http_Header
  ReqHost :: string
  Ctx :: nat

text \<open>
  An \<^verbatim>\<open>io.ReadCloser\<close>: the bytes it yields and the error, if any, that ends the
  reading instead of \<^verbatim>\<open>io.EOF\<close>.
\<close>

record ReadCloser =
  content :: string
  readErr :: "go_error option"

record http_Response =
  Status :: string
  StatusCode :: go_int
  Header :: http_Header
  Body :: "ReadCloser option"
  Request :: "http_Request option"

type_synonym RoundTripper = "http_Request \<Rightarrow> http_Response option \<times> go_error option"

record http_Client =
  Timeout :: Duration
  Transport :: RoundTripper

type_synonym HttpTransport = "RoundTripper \<Rightarrow> RoundTripper"

text \<open>
  A \<^verbatim>\<open>context.Context\<close>: an identity, which a request remembers, and the values
  stored under string keys. A value is a \<^verbatim>\<open>*http.Client\<close> (possibly nil) or of
  another type.
\<close>

datatype ctx_value = ClientValue "http_Client option" | OtherValue

record Context =
  ctx_id :: nat
  ctx_values :: "string \<rightharpoonup> ctx_value"

definition Background :: Context where
  "Background = \<lparr>ctx_id = 0, ctx_values = Map.empty\<rparr>"

text \<open>
  What the code takes from outside the repository: the text of an error
  (\<^verbatim>\<open>err.Error()\<close>), the round trip of an \<^verbatim>\<open>*http.Client\<close> (\<^verbatim>\<open>Do\<close>) and the
  network transport \<^verbatim>\<open>&http.Transport{...}\<close> for a given timeout.
\<close>

record runtime =
  Error :: "go_error \<Rightarrow> string"
  http_Client_Do :: "http_Client \<Rightarrow> http_Request \<Rightarrow> http_Response option \<times> go_error option"
  http_Transport :: "Duration \<Rightarrow> RoundTripper"

subsection \<open>Targets of a decode\<close>

text \<open>
  An \<^verbatim>\<open>io.Writer\<close>: the bytes written so far and the error, if any, that its
  \<^verbatim>\<open>Write\<close> returns. \<^verbatim>\<open>io.Copy\<close> moves the whole content in one write and returns
  the first error met: the write error when there is something to write, else the read
  error.
\<close>

record Writer =
  sink :: string
  writeErr :: "go_error option"

definition io_Copy :: "Writer \<Rightarrow> ReadCloser \<Rightarrow> Writer \<times> go_error option" where
  "io_Copy dst src =
     (if content src = [] then (dst, readErr src)
      else
        (case writeErr dst of
           Some e \<Rightarrow> (dst, Some e)
         | None \<Rightarrow> (dst\<lparr>sink := sink dst @ content src\<rparr>, readErr src)))"

text \<open>
  A non-nil value passed as \<^verbatim>\<open>interface{}\<close>: its dynamic type, the value that a
  decoder fills, and the capabilities of its method set that the type switch of
  \<^verbatim>\<open>Into\<close> asks for: \<open>asError\<close> is the value as an \<^verbatim>\<open>error\<close>, \<open>asWriter\<close> the
  value as an \<^verbatim>\<open>io.Writer\<close>, \<open>asHeaderer\<close> the map that its method
  \<^verbatim>\<open>Header() http.Header\<close> returns (\<open>Some None\<close> when the method returns a nil
  map); each is \<open>None\<close> when the type does not have the method.
\<close>

record 'v target =
  rtype :: string
  rvalue :: 'v
  asError :: "go_error option"
  asWriter :: "Writer option"
  asHeaderer :: "http_Header option option"

text \<open>
  The variable \<^verbatim>\<open>body interface{}\<close> of \<^verbatim>\<open>Into\<close>: nil, the caller's value, or the
  error that the error policy returned.
\<close>

datatype 'v any = AnyNil | AnyError go_error | AnyTarget "'v target"

definition error_value :: "go_error option \<Rightarrow> 'v any" where
  "error_value e = (case e of None \<Rightarrow> AnyNil | Some err \<Rightarrow> AnyError err)"

subsection \<open>Transformers\<close>

text \<open>
  A \<^verbatim>\<open>transformers.Transformer\<close> by the MIME types it names and its method
  \<^verbatim>\<open>DecodeFromReader(r, v, headers)\<close>, which reads the body as an \<^verbatim>\<open>io.Reader\<close> and
  returns the filled value and an error, and a \<^verbatim>\<open>transformers.TransformerMgr\<close> by
  its method \<^verbatim>\<open>NewTransformer(ctx, typ, option)\<close>, a function of the type and of the
  option's MIME. Both interfaces are declared outside the sources; a \<^verbatim>\<open>Result\<close> holds
  whatever manager it was given.
\<close>

record 'v Transformer =
  Names :: "string list"
  DecodeFromReader :: "ReadCloser option \<Rightarrow> 'v \<Rightarrow> http_Header \<Rightarrow> 'v \<times> go_error option"

type_synonym 'v TransformerMgr = "string \<Rightarrow> string \<Rightarrow> go_error + 'v Transformer"

text \<open>
  Modelled from the spec: \<^verbatim>\<open>httpx.HeaderContentType\<close>, a constant of the package
  \<^verbatim>\<open>httpx\<close>, which is not among the sources: the \<^verbatim>\<open>Content-Type\<close> header drives
  the selection of the transformer.
\<close>

definition HeaderContentType :: string where
  "HeaderContentType = ''Content-Type''"

subsection \<open>Result\<close>

record 'v Result =
  Response :: "http_Response option"
  TransformerMgr :: "'v TransformerMgr option"
  NewError :: "(http_Response \<Rightarrow> go_error option outcome) option"
  Err :: "go_error option"

text \<open>
  What a call of \<^verbatim>\<open>Into\<close> does: how it ends (\<open>ret\<close>: the metadata and the error
  returned, or a panic), the caller's target afterwards, and the calls it made to its
  collaborators, in order.
\<close>

datatype event =
    CallNewError
  | CallCopy
  | CallNewTransformer string string
  | CallDecodeFromReader
  | CallClose

record 'v into_out =
  ret :: "(http_Header \<times> go_error option) outcome"
  target_out :: "'v any"
  calls :: "event list"

definition returns :: "http_Header \<Rightarrow> go_error option \<Rightarrow> 'v any \<Rightarrow> event list \<Rightarrow> 'v into_out" where
  "returns meta err body cs = \<lparr>ret = Returned (meta, err), target_out = body, calls = cs\<rparr>"

definition panics :: "'v any \<Rightarrow> event list \<Rightarrow> 'v into_out" where
  "panics body cs = \<lparr>ret = Panicked, target_out = body, calls = cs\<rparr>"

definition StatusOK :: go_int where
  "StatusOK = 200"

definition StatusMultipleChoices :: go_int where
  "StatusMultipleChoices = 300"

text \<open>\<^verbatim>\<open>func isOk(code int) bool\<close>.\<close>

definition isOk :: "go_int \<Rightarrow> bool" where
  "isOk code = (sint StatusOK \<le> sint code \<and> sint code < sint StatusMultipleChoices)"

text \<open>
  The loop of \<^verbatim>\<open>Into\<close> over the metadata, in its \<^verbatim>\<open>io.Writer\<close> case: every
  entry whose key starts with \<^verbatim>\<open>Content-\<close> is assigned in the map that the target's
  \<^verbatim>\<open>Header()\<close> returned. The assignment \<^verbatim>\<open>header[k] = v\<close> to an entry of a nil
  map panics.
\<close>

fun setContentHeaders :: "http_Header \<Rightarrow> http_Header option \<Rightarrow> http_Header option outcome" where
  "setContentHeaders [] header = Returned header"
| "setContentHeaders ((k, v) # meta) header =
     (if HasPrefix k ''Content-'' then
        (case header of
           None \<Rightarrow> Panicked
         | Some h \<Rightarrow> setContentHeaders meta (Some (AList.update k v h)))
      else setContentHeaders meta header)"

text \<open>
  \<^verbatim>\<open>Into\<close> from \<^verbatim>\<open>if body == nil\<close> to its end: the nil check and the type switch,
  whose cases are tried in the order written: \<^verbatim>\<open>error\<close>, then \<^verbatim>\<open>io.Writer\<close>,
  then \<^verbatim>\<open>default\<close>. \<open>cs\<close> are the calls made before. In the \<^verbatim>\<open>io.Writer\<close>
  case the headers are set before the copy, so a panic of the loop leaves the copy
  undone; a nil \<^verbatim>\<open>r.Body\<close> makes \<^verbatim>\<open>io.Copy\<close> panic, a nil
  \<^verbatim>\<open>TransformerMgr\<close> makes \<^verbatim>\<open>r.NewTransformer\<close> panic.
\<close>

definition Into_switch ::
  "runtime \<Rightarrow> 'v Result \<Rightarrow> http_Response \<Rightarrow> http_Header \<Rightarrow> 'v any \<Rightarrow> event list \<Rightarrow> 'v into_out"
where
  "Into_switch rt r resp meta body cs =
     (case body of
        AnyNil \<Rightarrow> returns meta None body cs
      | AnyError v \<Rightarrow> returns meta (Some v) body cs
      | AnyTarget t \<Rightarrow>
          (case asError t of
             Some v \<Rightarrow> returns meta (Some v) body cs
           | None \<Rightarrow>
               (case asWriter t of
                  Some w \<Rightarrow>
                    (case (case asHeaderer t of
                             None \<Rightarrow> Returned None
                           | Some header \<Rightarrow> map_outcome Some (setContentHeaders meta header)) of
                       Panicked \<Rightarrow> panics body cs
                     | Returned headers \<Rightarrow>
                         (let t = t\<lparr>asHeaderer := headers\<rparr>
                          in case Body resp of
                               None \<Rightarrow> panics (AnyTarget t) (cs @ [CallCopy])
                             | Some b \<Rightarrow>
                                 (let (w, err) = io_Copy w b;
                                      t = t\<lparr>asWriter := Some w\<rparr>
                                  in case err of
                                       Some err \<Rightarrow>
                                         returns meta
                                           (Some (ClientError ReadFailed (Error rt err)))
                                           (AnyTarget t) (cs @ [CallCopy])
                                     | None \<Rightarrow>
                                         returns meta None (AnyTarget t) (cs @ [CallCopy]))))
                | None \<Rightarrow>
                    (let contentType = Metadata_Get meta HeaderContentType;
                         contentType = (if contentType \<noteq> [] then ParseMediaType contentType
                                        else contentType)
                     in case Result.TransformerMgr r of
                          None \<Rightarrow> panics body cs
                        | Some mgr \<Rightarrow>
                            (case mgr (rtype t) contentType of
                               Inl err \<Rightarrow>
                                 returns meta (Some (ClientError ReadFailed (Error rt err))) body
                                   (cs @ [CallNewTransformer (rtype t) contentType])
                             | Inr transformer \<Rightarrow>
                                 (let (v, err) = DecodeFromReader transformer (Body resp) (rvalue t) meta;
                                      t = t\<lparr>rvalue := v\<rparr>;
                                      cs = cs @ [CallNewTransformer (rtype t) contentType,
                                                 CallDecodeFromReader]
                                  in case err of
                                       Some err \<Rightarrow>
                                         returns meta (Some (ClientError ReadFailed (Error rt err)))
                                           (AnyTarget t) cs
                                     | None \<Rightarrow> returns meta None (AnyTarget t) cs))))))"

text \<open>
  \<^verbatim>\<open>Into\<close> without its deferred function. With no pre-flight error and no response,
  \<^verbatim>\<open>r.Header\<close> dereferences a nil pointer; a nil \<^verbatim>\<open>NewError\<close> panics when called.
  After the status gate the local \<^verbatim>\<open>body\<close> is the policy's error, and the caller's
  value is left as it was.
\<close>

definition Into_body :: "runtime \<Rightarrow> 'v Result \<Rightarrow> 'v any \<Rightarrow> 'v into_out" where
  "Into_body rt r body =
     (case Err r of
        Some e \<Rightarrow> returns [] (Some e) body []
      | None \<Rightarrow>
          (case Response r of
             None \<Rightarrow> panics body []
           | Some resp \<Rightarrow>
               (let meta = Header resp in
                if \<not> isOk (StatusCode resp) then
                  (case Result.NewError r of
                     None \<Rightarrow> panics body []
                   | Some newError \<Rightarrow>
                       (case newError resp of
                          Panicked \<Rightarrow> panics body [CallNewError]
                        | Returned e \<Rightarrow>
                            (Into_switch rt r resp meta (error_value e) [CallNewError])
                              \<lparr>target_out := body\<rparr>))
                else Into_switch rt r resp meta body [])))"

text \<open>
  \<^verbatim>\<open>func (r *Result) Into(body interface{}) (courier.Metadata, error)\<close>: the deferred
  function runs last, on a return and on a panic, and closes the body when there is a
  response with a body.
\<close>

definition Into :: "runtime \<Rightarrow> 'v Result \<Rightarrow> 'v any \<Rightarrow> 'v into_out" where
  "Into rt r body =
     (let out = Into_body rt r body
      in out\<lparr>calls := calls out @
           (case Response r of
              None \<Rightarrow> []
            | Some resp \<Rightarrow> (case Body resp of None \<Rightarrow> [] | Some b \<Rightarrow> [CallClose]))\<rparr>)"

subsection \<open>The client\<close>

text \<open>
  The request passed to \<^verbatim>\<open>Do\<close>: an \<^verbatim>\<open>*http.Request\<close>, or a descriptor, which may
  implement \<^verbatim>\<open>httptransport.MethodDescriber\<close> and \<^verbatim>\<open>httptransport.PathDescriber\<close>
  (\<open>Some\<close> of what the method returns) and carries the input fields.
\<close>

record 'd descriptor =
  MethodDescriber :: "string option"
  PathDescriber :: "string option"
  input :: 'd

datatype 'd req = HttpRequest http_Request | Descriptor "'d descriptor"

text \<open>
  \<^verbatim>\<open>httptransport.RequestTransformerMgr\<close>, declared outside the sources: the embedded
  \<^verbatim>\<open>TransformerMgr\<close> (an interface, possibly nil) and the method
  \<^verbatim>\<open>NewRequest(method, url, v)\<close>, which builds the request from the descriptor or
  fails. A request it returns has a non-nil header map.
\<close>

record ('d, 'v) RequestTransformerMgr =
  TransformerMgr :: "'v TransformerMgr option"
  NewRequest :: "string \<Rightarrow> string \<Rightarrow> 'd descriptor \<Rightarrow> go_error + http_Request"

record ('d, 'v) Client =
  Protocol :: string
  Host :: string
  Port :: int16
  Timeout :: Duration
  RequestTransformerMgr :: "('d, 'v) RequestTransformerMgr option"
  HttpTransports :: "HttpTransport list option"
  NewError :: "(http_Response \<Rightarrow> go_error option outcome) option"

text \<open>
  The function literal that \<^verbatim>\<open>SetDefaults\<close> installs as \<^verbatim>\<open>NewError\<close>. The
  multiplication is that of Go's \<^verbatim>\<open>int\<close>; \<^verbatim>\<open>resp.Request.Host\<close> dereferences
  \<^verbatim>\<open>resp.Request\<close>.
\<close>

definition defaultNewError :: "http_Response \<Rightarrow> go_error option outcome" where
  "defaultNewError resp =
     (case Request resp of
        None \<Rightarrow> Panicked
      | Some request \<Rightarrow>
          Returned (Some (StatusErrPtr
            \<lparr>Code = StatusCode resp * 1000000,
             Msg = Status resp,
             Sources = [ReqHost request]\<rparr>)))"

text \<open>
  \<^verbatim>\<open>func (c *Client) SetDefaults()\<close>. The manager that
  \<^verbatim>\<open>httptransport.NewRequestTransformerMgr(nil, nil)\<close> and its \<^verbatim>\<open>SetDefaults\<close> build
  and the logging round tripper are declared outside the sources and are parameters.
\<close>

definition SetDefaults ::
  "('d, 'v) RequestTransformerMgr \<Rightarrow> HttpTransport \<Rightarrow> ('d, 'v) Client \<Rightarrow> ('d, 'v) Client"
where
  "SetDefaults defaultMgr logRoundTripper c =
     (let c = (if RequestTransformerMgr c = None
               then c\<lparr>RequestTransformerMgr := Some defaultMgr\<rparr> else c);
          c = (if HttpTransports c = None
               then c\<lparr>HttpTransports := Some [logRoundTripper]\<rparr> else c);
          c = (if Client.NewError c = None
               then c\<lparr>Client.NewError := Some defaultNewError\<rparr> else c)
      in c)"

text \<open>\<^verbatim>\<open>func ContextWithClient(ctx context.Context, c *http.Client) context.Context\<close>,
  for a parent context that is not nil.\<close>

definition ContextWithClient :: "Context \<Rightarrow> http_Client option \<Rightarrow> Context" where
  "ContextWithClient ctx c = ctx\<lparr>ctx_values := (ctx_values ctx)(''courier.Client'' \<mapsto> ClientValue c)\<rparr>"

text \<open>\<^verbatim>\<open>func ClientFromContext(ctx context.Context) *http.Client\<close>.\<close>

definition ClientFromContext :: "Context option \<Rightarrow> http_Client option" where
  "ClientFromContext ctx =
     (case ctx of
        None \<Rightarrow> None
      | Some cx \<Rightarrow>
          (case ctx_values cx ''courier.Client'' of
             Some (ClientValue c) \<Rightarrow> c
           | _ \<Rightarrow> None))"

text \<open>
  \<^verbatim>\<open>func (c *Client) toUrl(path string) string\<close>: the scheme defaults to
  \<^verbatim>\<open>http\<close>, and the port is printed only when it is positive.
\<close>

definition toUrl :: "('d, 'v) Client \<Rightarrow> string \<Rightarrow> string" where
  "toUrl c path =
     (let protocol = Protocol c;
          protocol = (if protocol = [] then ''http'' else protocol);
          url = protocol @ ''://'' @ Host c;
          url = (if 0 < sint (Port c) then url @ '':'' @ fmt_d (sint (Port c)) else url)
      in url @ path)"

text \<open>
  \<^verbatim>\<open>func (c *Client) newRequest(ctx, req, metas...) (*http.Request, error)\<close>, for a
  descriptor. A nil \<^verbatim>\<open>RequestTransformerMgr\<close> is dereferenced by the call of
  \<^verbatim>\<open>NewRequest\<close>. The two nested loops add every value of the merged metadata with
  \<^verbatim>\<open>request.Header.Add\<close>.
\<close>

definition newRequest ::
  "runtime \<Rightarrow> ('d, 'v) Client \<Rightarrow> Context option \<Rightarrow> 'd descriptor \<Rightarrow> http_Header list
     \<Rightarrow> (go_error + http_Request) outcome"
where
  "newRequest rt c ctx req metas =
     (let ctx = (case ctx of None \<Rightarrow> Background | Some cx \<Rightarrow> cx);
          method = (case MethodDescriber req of Some m \<Rightarrow> m | None \<Rightarrow> []);
          path = (case PathDescriber req of Some p \<Rightarrow> p | None \<Rightarrow> [])
      in case RequestTransformerMgr c of
           None \<Rightarrow> Panicked
         | Some mgr \<Rightarrow>
             (case NewRequest mgr method (toUrl c path) req of
                Inl err \<Rightarrow> Returned (Inl (ClientError RequestTransformFailed (Error rt err)))
              | Inr request \<Rightarrow>
                  (let request = request\<lparr>Ctx := ctx_id ctx\<rparr>;
                       request = request\<lparr>ReqHeader :=
                         fold (\<lambda>(k, vs) header. fold (\<lambda>v header. Header_Add k v header) vs header)
                           (FromMetas metas) (ReqHeader request)\<rparr>
                   in Returned (Inr request))))"

text \<open>
  \<^verbatim>\<open>func GetShortConnClient(timeout, httpTransports...) *http.Client\<close>: each transport
  wraps the one before it, the network transport innermost.
\<close>

definition GetShortConnClient :: "runtime \<Rightarrow> Duration \<Rightarrow> HttpTransport list option \<Rightarrow> http_Client" where
  "GetShortConnClient rt timeout httpTransports =
     (let client = \<lparr>http_Client.Timeout = timeout, Transport = http_Transport rt timeout\<rparr>
      in case httpTransports of
           None \<Rightarrow> client
         | Some ts \<Rightarrow> fold (\<lambda>httpTransport client.
                       client\<lparr>Transport := httpTransport (Transport client)\<rparr>) ts client)"

text \<open>
  The composite literal \<^verbatim>\<open>&Result{...}\<close> of \<^verbatim>\<open>Do\<close>:
  \<^verbatim>\<open>c.RequestTransformerMgr.TransformerMgr\<close> dereferences the manager.
\<close>

definition newResult ::
  "('d, 'v) Client \<Rightarrow> http_Response option \<Rightarrow> go_error option \<Rightarrow> 'v Result outcome"
where
  "newResult c resp err =
     (case RequestTransformerMgr c of
        None \<Rightarrow> Panicked
      | Some mgr \<Rightarrow>
          Returned \<lparr>Response = resp,
                    Result.TransformerMgr = RequestTransformerMgr.TransformerMgr mgr,
                    Result.NewError = Client.NewError c,
                    Err = err\<rparr>)"

text \<open>
  \<^verbatim>\<open>func (c *Client) Do(ctx, req, metas...) courier.Result\<close>. The response of a failed
  round trip is dropped.
\<close>

definition Do ::
  "runtime \<Rightarrow> ('d, 'v) Client \<Rightarrow> Context option \<Rightarrow> 'd req \<Rightarrow> http_Header list \<Rightarrow> 'v Result outcome"
where
  "Do rt c ctx req metas =
     (case (case req of
              HttpRequest request \<Rightarrow> Returned (Inr request)
            | Descriptor d \<Rightarrow> newRequest rt c ctx d metas) of
        Panicked \<Rightarrow> Panicked
      | Returned (Inl err) \<Rightarrow> newResult c None (Some (ClientError RequestFailed (Error rt err)))
      | Returned (Inr request) \<Rightarrow>
          (let httpClient = ClientFromContext ctx;
               httpClient = (case httpClient of
                               None \<Rightarrow> GetShortConnClient rt (Client.Timeout c) (HttpTransports c)
                             | Some cl \<Rightarrow> cl);
               (resp, err) = http_Client_Do rt httpClient request
           in case err of
                Some err \<Rightarrow> newResult c None (Some (ClientError RequestFailed (Error rt err)))
              | None \<Rightarrow> newResult c resp None))"

section \<open>Example values\<close>

text \<open>
  Concrete collaborators and messages, on which the properties below are evaluated: an
  error text, a client whose round trip is that of its transport, a network that refuses
  the connection, responses of a host \<^verbatim>\<open>api.example.com\<close>, and a manager with one
  transformer for \<^verbatim>\<open>application/json\<close>, which decodes a body to its bytes.
\<close>

definition example_runtime :: runtime where
  "example_runtime =
     \<lparr>Error = (\<lambda>e. case e of
                     ClientError k desc \<Rightarrow> desc
                   | StatusErrPtr s \<Rightarrow> Msg s
                   | ExternalError msg \<Rightarrow> msg),
      http_Client_Do = (\<lambda>client request. Transport client request),
      http_Transport = (\<lambda>timeout request. (None, Some (ExternalError ''connection refused'')))\<rparr>"

definition example_request :: http_Request where
  "example_request =
     \<lparr>Method = ''GET'', URL = ''http://api.example.com:443/items/42'',
      ReqHeader = [(''X'', [''a''])], ReqHost = ''api.example.com'', Ctx = 0\<rparr>"

definition example_response :: "go_int \<Rightarrow> string \<Rightarrow> string \<Rightarrow> http_Response" where
  "example_response code status contentType =
     \<lparr>Status = status, StatusCode = code,
      Header = [(''Content-Type'', [contentType])],
      Body = Some \<lparr>content = ''{}'', readErr = None\<rparr>,
      Request = Some example_request\<rparr>"

definition example_transformer :: "string Transformer" where
  "example_transformer =
     \<lparr>Names = [''application/json''],
      DecodeFromReader = (\<lambda>reader v headers.
        case reader of
          None \<Rightarrow> (v, Some (ExternalError ''nil reader''))
        | Some b \<Rightarrow> (content b, readErr b))\<rparr>"

definition example_mgr :: "string TransformerMgr" where
  "example_mgr typ mime =
     (if mime = ''application/json'' \<or> mime = [] then Inr example_transformer
      else Inl (ExternalError ''no transformer''))"

definition example_result :: "http_Response \<Rightarrow> string Result" where
  "example_result resp =
     \<lparr>Response = Some resp, Result.TransformerMgr = Some example_mgr,
      Result.NewError = Some defaultNewError, Err = None\<rparr>"

definition example_target :: "string target" where
  "example_target =
     \<lparr>rtype = ''*Item'', rvalue = [], asError = None, asWriter = None, asHeaderer = None\<rparr>"

text \<open>A value whose type implements both \<^verbatim>\<open>error\<close> and \<^verbatim>\<open>io.Writer\<close>.\<close>

definition example_error_writer :: "string target" where
  "example_error_writer =
     \<lparr>rtype = ''*ErrorBuffer'', rvalue = [], asError = Some (ExternalError ''buffer''),
      asWriter = Some \<lparr>sink = [], writeErr = None\<rparr>, asHeaderer = None\<rparr>"

text \<open>
  A manager whose \<^verbatim>\<open>NewRequest\<close> fails on an input marked invalid and otherwise
  builds a request that already carries the header \<^verbatim>\<open>X: a\<close>, and a client for it.
\<close>

definition example_request_mgr :: "(bool, string) RequestTransformerMgr" where
  "example_request_mgr =
     \<lparr>RequestTransformerMgr.TransformerMgr = Some example_mgr,
      NewRequest = (\<lambda>method url d.
        if input d
        then Inr \<lparr>Method = method, URL = url, ReqHeader = [(''X'', [''a''])],
                  ReqHost = ''api.example.com'', Ctx = 0\<rparr>
        else Inl (ExternalError ''missing path parameter''))\<rparr>"

definition example_client :: "(bool, string) Client" where
  "example_client =
     \<lparr>Protocol = [], Host = ''api.example.com'', Port = 443, Client.Timeout = 0,
      RequestTransformerMgr = Some example_request_mgr, HttpTransports = None,
      Client.NewError = None\<rparr>"

definition example_descriptor :: "bool \<Rightarrow> bool descriptor" where
  "example_descriptor valid =
     \<lparr>MethodDescriber = Some ''GET'', PathDescriber = Some ''/items/42'', input = valid\<rparr>"

section \<open>Properties of \<open>toUrl\<close>\<close>

lemma fmt_d_443: "fmt_d 443 = ''443''"
  by code_simp

text \<open>
  Claim C10. For a client whose \<^verbatim>\<open>Protocol\<close> is the empty string, \<^verbatim>\<open>toUrl(path)\<close>
  is \<^verbatim>\<open>http://\<close>, the host, a colon and the port in decimal when the port is positive,
  and the path; the result has no port segment exactly when the port is zero or negative.
\<close>

theorem toUrl_default_scheme:
  assumes "Protocol c = []"
  shows "toUrl c path =
           ''http://'' @ Host c @
             (if 0 < sint (Port c) then '':'' @ fmt_d (sint (Port c)) else []) @ path \<and>
         (toUrl c path = ''http://'' @ Host c @ path \<longleftrightarrow> sint (Port c) \<le> 0)"
  using assms by (simp add: toUrl_def Let_def)

theorem toUrl_default_scheme_witness:
  "Protocol example_client = [] \<and>
   toUrl example_client ''/items/42'' = ''http://api.example.com:443/items/42'' \<and>
   toUrl (example_client\<lparr>Port := 0\<rparr>) ''/items/42'' = ''http://api.example.com/items/42''"
  using toUrl_default_scheme [of example_client "''/items/42''"]
    toUrl_default_scheme [of "example_client\<lparr>Port := 0\<rparr>" "''/items/42''"]
  by (simp add: example_client_def fmt_d_443)

section \<open>Properties of \<open>Into\<close>\<close>

lemma isOk_iff: "isOk code \<longleftrightarrow> 200 \<le> sint code \<and> sint code < 300"
  by (simp add: isOk_def StatusOK_def StatusMultipleChoices_def)

lemma Into_switch_error_value:
  "Into_switch rt r resp meta (error_value e) cs = returns meta e (error_value e) cs"
  by (cases e) (simp_all add: Into_switch_def error_value_def)

lemma Into_switch_no_close:
  "CallClose \<notin> set cs \<Longrightarrow> CallClose \<notin> set (calls (Into_switch rt r resp meta body cs))"
  by (auto simp: Into_switch_def returns_def panics_def Let_def
           split: any.splits option.splits sum.splits prod.splits outcome.splits)

lemma Into_body_no_close: "CallClose \<notin> set (calls (Into_body rt r body))"
  by (auto simp: Into_body_def returns_def panics_def Let_def Into_switch_no_close
           split: option.splits outcome.splits)

text \<open>
  Claim C1. For a \<^verbatim>\<open>Result\<close> that holds a response and no pre-flight error, with an
  error policy: when the status code is outside [200, 300), \<^verbatim>\<open>Into\<close> ends as the
  policy applied to the response does, returning the response's header and the policy's
  error, whatever the target is and whatever decoding it would have made; the target is
  left as it was, and nothing is called but the policy and the close of the body. When
  the status code is in [200, 300), the policy is not called.
\<close>

theorem Into_status_gate:
  assumes "Response r = Some resp" and "Err r = None" and "Result.NewError r = Some newError"
  shows "(\<not> (200 \<le> sint (StatusCode resp) \<and> sint (StatusCode resp) < 300) \<longrightarrow>
            ret (Into rt r body) =
              (case newError resp of
                 Panicked \<Rightarrow> Panicked
               | Returned e \<Rightarrow> Returned (Header resp, e)) \<and>
            target_out (Into rt r body) = body \<and>
            calls (Into rt r body) =
              CallNewError # (case Body resp of None \<Rightarrow> [] | Some b \<Rightarrow> [CallClose])) \<and>
         (200 \<le> sint (StatusCode resp) \<and> sint (StatusCode resp) < 300 \<longrightarrow>
            CallNewError \<notin> set (calls (Into rt r body)))"
proof (intro conjI impI)
  assume gate: "\<not> (200 \<le> sint (StatusCode resp) \<and> sint (StatusCode resp) < 300)"
  then have not_ok: "\<not> isOk (StatusCode resp)"
    by (simp add: isOk_iff)
  have body: "Into_body rt r body =
      (case newError resp of
         Panicked \<Rightarrow> panics body [CallNewError]
       | Returned e \<Rightarrow> (returns (Header resp) e (error_value e) [CallNewError])\<lparr>target_out := body\<rparr>)"
    using assms not_ok
    by (simp add: Into_body_def Let_def Into_switch_error_value split: outcome.splits)
  show "ret (Into rt r body) =
      (case newError resp of Panicked \<Rightarrow> Panicked | Returned e \<Rightarrow> Returned (Header resp, e))"
    by (simp add: Into_def Let_def body returns_def panics_def split: outcome.splits)
  show "target_out (Into rt r body) = body"
    by (simp add: Into_def Let_def body returns_def panics_def split: outcome.splits)
  show "calls (Into rt r body) =
      CallNewError # (case Body resp of None \<Rightarrow> [] | Some b \<Rightarrow> [CallClose])"
    using assms(1)
    by (simp add: Into_def Let_def body returns_def panics_def split: outcome.splits)
next
  assume "200 \<le> sint (StatusCode resp) \<and> sint (StatusCode resp) < 300"
  then have ok: "isOk (StatusCode resp)"
    by (simp add: isOk_iff)
  have "CallNewError \<notin> set (calls (Into_switch rt r resp (Header resp) body []))"
    by (auto simp: Into_switch_def returns_def panics_def Let_def
             split: any.splits option.splits sum.splits prod.splits outcome.splits)
  then show "CallNewError \<notin> set (calls (Into rt r body))"
    using assms ok
    by (auto simp: Into_def Into_body_def Let_def split: option.splits)
qed

theorem Into_status_gate_witness:
  "\<not> (200 \<le> sint (StatusCode (example_response 404 ''404 Not Found'' ''application/json'')) \<and>
      sint (StatusCode (example_response 404 ''404 Not Found'' ''application/json'')) < 300) \<and>
   Err (example_result (example_response 404 ''404 Not Found'' ''application/json'')) = None \<and>
   ret (Into example_runtime
         (example_result (example_response 404 ''404 Not Found'' ''application/json''))
         (AnyTarget example_target)) =
     Returned ([(''Content-Type'', [''application/json''])],
       Some (StatusErrPtr
         \<lparr>Code = 404000000, Msg = ''404 Not Found'', Sources = [''api.example.com'']\<rparr>))"
  using Into_status_gate [of
      "example_result (example_response 404 ''404 Not Found'' ''application/json'')"
      "example_response 404 ''404 Not Found'' ''application/json''" defaultNewError
      example_runtime "AnyTarget example_target"]
  by (simp add: example_result_def example_response_def example_request_def defaultNewError_def)

text \<open>
  Claim C2. On every path of \<^verbatim>\<open>Into\<close> (a return with or without an error, and a
  panic), for every \<^verbatim>\<open>Result\<close> and every target, \<^verbatim>\<open>Close\<close> is called on the
  response body exactly once when there is a response with a non-nil body, and is not
  called when there is no response or no body.
\<close>

theorem Into_closes_body_once:
  "count_list (calls (Into rt r body)) CallClose =
     (case Response r of
        None \<Rightarrow> 0
      | Some resp \<Rightarrow> (case Body resp of None \<Rightarrow> 0 | Some b \<Rightarrow> 1))"
  using Into_body_no_close [of rt r body]
  by (simp add: Into_def Let_def count_list_0_iff split: option.splits)

theorem Into_closes_body_once_witness:
  "count_list (calls (Into example_runtime
      (example_result (example_response 200 ''200 OK'' ''application/json''))
      (AnyTarget example_target))) CallClose = 1 \<and>
   count_list (calls (Into example_runtime
      ((example_result (example_response 200 ''200 OK'' ''application/json''))
         \<lparr>Response := None, Err := Some (ClientError RequestFailed ''timeout'')\<rparr>)
      (AnyTarget example_target))) CallClose = 0"
  using Into_closes_body_once [of example_runtime
      "example_result (example_response 200 ''200 OK'' ''application/json'')"
      "AnyTarget example_target"]
    Into_closes_body_once [of example_runtime
      "(example_result (example_response 200 ''200 OK'' ''application/json''))
         \<lparr>Response := None, Err := Some (ClientError RequestFailed ''timeout'')\<rparr>"
      "AnyTarget example_target"]
  by (simp add: example_result_def example_response_def)

text \<open>
  Claim C4. For a \<^verbatim>\<open>Result\<close> whose pre-flight error is not nil, \<^verbatim>\<open>Into\<close> returns
  nil metadata and that error; the target is left as it was, and no call is made (no
  error policy, no copy, no transformer, no decoding) but the close of the body of a
  response, if the \<^verbatim>\<open>Result\<close> holds one.
\<close>

theorem Into_preflight_error:
  assumes "Err r = Some e"
  shows "ret (Into rt r body) = Returned ([], Some e) \<and>
         target_out (Into rt r body) = body \<and>
         calls (Into rt r body) =
           (case Response r of
              None \<Rightarrow> []
            | Some resp \<Rightarrow> (case Body resp of None \<Rightarrow> [] | Some b \<Rightarrow> [CallClose]))"
  using assms by (simp add: Into_def Into_body_def Let_def returns_def)

theorem Into_preflight_error_witness:
  "Err ((example_result (example_response 200 ''200 OK'' ''application/json''))
          \<lparr>Response := None, Err := Some (ClientError RequestFailed ''timeout'')\<rparr>) =
     Some (ClientError RequestFailed ''timeout'') \<and>
   ret (Into example_runtime
         ((example_result (example_response 200 ''200 OK'' ''application/json''))
            \<lparr>Response := None, Err := Some (ClientError RequestFailed ''timeout'')\<rparr>)
         (AnyTarget example_target)) =
     Returned ([], Some (ClientError RequestFailed ''timeout'')) \<and>
   target_out (Into example_runtime
         ((example_result (example_response 200 ''200 OK'' ''application/json''))
            \<lparr>Response := None, Err := Some (ClientError RequestFailed ''timeout'')\<rparr>)
         (AnyTarget example_target)) = AnyTarget example_target \<and>
   calls (Into example_runtime
         ((example_result (example_response 200 ''200 OK'' ''application/json''))
            \<lparr>Response := None, Err := Some (ClientError RequestFailed ''timeout'')\<rparr>)
         (AnyTarget example_target)) = []"
  using Into_preflight_error [of
      "(example_result (example_response 200 ''200 OK'' ''application/json''))
            \<lparr>Response := None, Err := Some (ClientError RequestFailed ''timeout'')\<rparr>"
      "ClientError RequestFailed ''timeout''" example_runtime "AnyTarget example_target"]
  by (simp add: example_result_def example_response_def)

text \<open>
  Claim C5, as stated, fails: with a nil target and the status 404, \<^verbatim>\<open>Into\<close> returns
  the error of the error policy, not a nil error.
\<close>

theorem Into_nil_target_counterexample:
  "ret (Into example_runtime
         (example_result (example_response 404 ''404 Not Found'' ''application/json''))
         AnyNil) =
     Returned ([(''Content-Type'', [''application/json''])],
       Some (StatusErrPtr
         \<lparr>Code = 404000000, Msg = ''404 Not Found'', Sources = [''api.example.com'']\<rparr>))"
  by (simp add: Into_def Into_body_def Into_switch_def isOk_def StatusOK_def
        StatusMultipleChoices_def example_result_def example_response_def example_request_def
        defaultNewError_def error_value_def returns_def)

text \<open>
  Claim C5, amended. For a \<^verbatim>\<open>Result\<close> with a response and no pre-flight error,
  \<^verbatim>\<open>Into\<close> with a nil target returns the metadata of the response header and a nil
  error when the status code is in [200, 300), and its only call is the close of the
  body; when the status code is outside [200, 300), it ends as the error policy does and
  returns the policy's error with the metadata.
\<close>

theorem Into_nil_target:
  assumes "Response r = Some resp" and "Err r = None"
  shows "(isOk (StatusCode resp) \<longrightarrow>
            ret (Into rt r AnyNil) = Returned (Header resp, None) \<and>
            calls (Into rt r AnyNil) = (case Body resp of None \<Rightarrow> [] | Some b \<Rightarrow> [CallClose])) \<and>
         (\<not> isOk (StatusCode resp) \<longrightarrow> Result.NewError r = Some newError \<longrightarrow>
            ret (Into rt r AnyNil) =
              (case newError resp of
                 Panicked \<Rightarrow> Panicked
               | Returned e \<Rightarrow> Returned (Header resp, e)))"
proof (intro conjI impI)
  assume "isOk (StatusCode resp)"
  then show "ret (Into rt r AnyNil) = Returned (Header resp, None)"
    and "calls (Into rt r AnyNil) = (case Body resp of None \<Rightarrow> [] | Some b \<Rightarrow> [CallClose])"
    using assms by (simp_all add: Into_def Into_body_def Let_def Into_switch_def returns_def)
next
  assume "\<not> isOk (StatusCode resp)" and "Result.NewError r = Some newError"
  then show "ret (Into rt r AnyNil) =
      (case newError resp of Panicked \<Rightarrow> Panicked | Returned e \<Rightarrow> Returned (Header resp, e))"
    using assms
    by (simp add: Into_def Into_body_def Let_def Into_switch_error_value returns_def panics_def
             split: outcome.splits)
qed

theorem Into_nil_target_witness:
  "isOk (StatusCode (example_response 204 ''204 No Content'' ''application/json'')) \<and>
   Err (example_result (example_response 204 ''204 No Content'' ''application/json'')) = None \<and>
   ret (Into example_runtime
         (example_result (example_response 204 ''204 No Content'' ''application/json''))
         AnyNil) = Returned ([(''Content-Type'', [''application/json''])], None) \<and>
   calls (Into example_runtime
         (example_result (example_response 204 ''204 No Content'' ''application/json''))
         AnyNil) = [CallClose]"
  using Into_nil_target [of
      "example_result (example_response 204 ''204 No Content'' ''application/json'')"
      "example_response 204 ''204 No Content'' ''application/json''" example_runtime
      defaultNewError]
  by (simp add: example_result_def example_response_def isOk_iff)

text \<open>
  Claim C3, as stated, fails: a target that is both an \<^verbatim>\<open>error\<close> and an
  \<^verbatim>\<open>io.Writer\<close> is returned as the error of the call, and nothing is copied into it.
\<close>

theorem Into_dispatch_order_counterexample:
  "ret (Into example_runtime
         (example_result (example_response 200 ''200 OK'' ''application/json''))
         (AnyTarget example_error_writer)) =
     Returned ([(''Content-Type'', [''application/json''])], Some (ExternalError ''buffer'')) \<and>
   target_out (Into example_runtime
         (example_result (example_response 200 ''200 OK'' ''application/json''))
         (AnyTarget example_error_writer)) = AnyTarget example_error_writer \<and>
   asWriter example_error_writer = Some \<lparr>sink = [], writeErr = None\<rparr> \<and>
   calls (Into example_runtime
         (example_result (example_response 200 ''200 OK'' ''application/json''))
         (AnyTarget example_error_writer)) = [CallClose]"
  by (simp add: Into_def Into_body_def Into_switch_def isOk_def StatusOK_def
        StatusMultipleChoices_def example_result_def example_response_def
        example_error_writer_def returns_def)

lemma setContentHeaders_Some:
  "setContentHeaders meta (Some h) =
     Returned (Some (fold (\<lambda>(k, v) h. if HasPrefix k ''Content-'' then AList.update k v h else h)
       meta h))"
  by (induction meta arbitrary: h) auto

lemma setContentHeaders_None:
  "setContentHeaders meta None =
     (if list_ex (\<lambda>(k, v). HasPrefix k ''Content-'') meta then Panicked else Returned None)"
  by (induction meta) auto

text \<open>
  Claim C3, amended. In the dispatch of \<^verbatim>\<open>Into\<close> over the target (a response with a
  status code in [200, 300), no pre-flight error), the error capability is tested first,
  then the writer capability, then the structured decode: a target that is an
  \<^verbatim>\<open>error\<close> is returned as the error of the call and left as it was, also when it is
  an \<^verbatim>\<open>io.Writer\<close> too; a target that is an \<^verbatim>\<open>io.Writer\<close> and no \<^verbatim>\<open>error\<close>
  first has the \<^verbatim>\<open>Content-\<close> headers of the response set in the map of its
  \<^verbatim>\<open>Header()\<close> method, if it has one, and then receives the bytes of the body by
  \<^verbatim>\<open>io.Copy\<close>, whose error is returned as \<^verbatim>\<open>ReadFailed\<close>, except that \<^verbatim>\<open>Into\<close>
  panics before the copy, the target untouched and the body closed, when that map is nil
  and the response has a \<^verbatim>\<open>Content-\<close> header; a target that is neither has a
  transformer looked up for its type.
\<close>

theorem Into_dispatch_order:
  assumes "Response r = Some resp" and "Err r = None" and "isOk (StatusCode resp)"
  shows "(asError t = Some e \<longrightarrow>
            ret (Into rt r (AnyTarget t)) = Returned (Header resp, Some e) \<and>
            target_out (Into rt r (AnyTarget t)) = AnyTarget t \<and>
            calls (Into rt r (AnyTarget t)) =
              (case Body resp of None \<Rightarrow> [] | Some b \<Rightarrow> [CallClose])) \<and>
         (asError t = None \<longrightarrow> asWriter t = Some w \<longrightarrow> Body resp = Some b \<longrightarrow>
            (if asHeaderer t = Some None \<and>
                list_ex (\<lambda>(k, v). HasPrefix k ''Content-'') (Header resp)
             then
               ret (Into rt r (AnyTarget t)) = Panicked \<and>
               target_out (Into rt r (AnyTarget t)) = AnyTarget t \<and>
               calls (Into rt r (AnyTarget t)) = [CallClose]
             else
               ret (Into rt r (AnyTarget t)) =
                 Returned (Header resp,
                   map_option (\<lambda>err. ClientError ReadFailed (Error rt err)) (snd (io_Copy w b))) \<and>
               target_out (Into rt r (AnyTarget t)) =
                 AnyTarget (t\<lparr>asHeaderer :=
                     map_option (map_option (fold (\<lambda>(k, v) h.
                       if HasPrefix k ''Content-'' then AList.update k v h else h) (Header resp)))
                       (asHeaderer t),
                   asWriter := Some (fst (io_Copy w b))\<rparr>) \<and>
               calls (Into rt r (AnyTarget t)) = [CallCopy, CallClose])) \<and>
         (asError t = None \<longrightarrow> asWriter t = None \<longrightarrow> Result.TransformerMgr r = Some mgr \<longrightarrow>
            CallCopy \<notin> set (calls (Into rt r (AnyTarget t))) \<and>
            (\<exists>mime. hd (calls (Into rt r (AnyTarget t))) = CallNewTransformer (rtype t) mime))"
proof (intro conjI impI)
  assume "asError t = Some e"
  then show "ret (Into rt r (AnyTarget t)) = Returned (Header resp, Some e)"
    and "target_out (Into rt r (AnyTarget t)) = AnyTarget t"
    and "calls (Into rt r (AnyTarget t)) =
           (case Body resp of None \<Rightarrow> [] | Some b \<Rightarrow> [CallClose])"
    using assms
    by (simp_all add: Into_def Into_body_def Let_def returns_def Into_switch_def)
next
  assume writer: "asError t = None" "asWriter t = Some w" "Body resp = Some b"
  show "if asHeaderer t = Some None \<and>
           list_ex (\<lambda>(k, v). HasPrefix k ''Content-'') (Header resp)
        then
          ret (Into rt r (AnyTarget t)) = Panicked \<and>
          target_out (Into rt r (AnyTarget t)) = AnyTarget t \<and>
          calls (Into rt r (AnyTarget t)) = [CallClose]
        else
          ret (Into rt r (AnyTarget t)) =
            Returned (Header resp,
              map_option (\<lambda>err. ClientError ReadFailed (Error rt err)) (snd (io_Copy w b))) \<and>
          target_out (Into rt r (AnyTarget t)) =
            AnyTarget (t\<lparr>asHeaderer :=
                map_option (map_option (fold (\<lambda>(k, v) h.
                  if HasPrefix k ''Content-'' then AList.update k v h else h) (Header resp)))
                  (asHeaderer t),
              asWriter := Some (fst (io_Copy w b))\<rparr>) \<and>
          calls (Into rt r (AnyTarget t)) = [CallCopy, CallClose]"
  proof (cases "asHeaderer t")
    case None
    then show ?thesis
      using assms writer
      by (simp add: Into_def Into_body_def Let_def returns_def Into_switch_def
               split: option.splits prod.splits)
  next
    case (Some header)
    then show ?thesis
      using assms writer
      by (cases header)
         (simp_all add: Into_def Into_body_def Let_def returns_def panics_def Into_switch_def
               setContentHeaders_Some setContentHeaders_None
               split: option.splits prod.splits)
  qed
next
  assume "asError t = None" and "asWriter t = None" and "Result.TransformerMgr r = Some mgr"
  then show "CallCopy \<notin> set (calls (Into rt r (AnyTarget t)))"
    and "\<exists>mime. hd (calls (Into rt r (AnyTarget t))) = CallNewTransformer (rtype t) mime"
    using assms
    by (auto simp: Into_def Into_body_def Let_def returns_def panics_def Into_switch_def
             split: option.splits sum.splits prod.splits)
qed

theorem Into_dispatch_order_witness:
  "ret (Into example_runtime
         (example_result (example_response 200 ''200 OK'' ''application/json''))
         (AnyTarget example_error_writer)) =
     Returned ([(''Content-Type'', [''application/json''])], Some (ExternalError ''buffer'')) \<and>
   calls (Into example_runtime
         (example_result (example_response 200 ''200 OK'' ''application/json''))
         (AnyTarget (example_error_writer\<lparr>asError := None\<rparr>))) = [CallCopy, CallClose] \<and>
   target_out (Into example_runtime
         (example_result (example_response 200 ''200 OK'' ''application/json''))
         (AnyTarget (example_error_writer\<lparr>asError := None\<rparr>))) =
     AnyTarget (example_error_writer
       \<lparr>asError := None, asWriter := Some \<lparr>sink = ''{}'', writeErr = None\<rparr>\<rparr>) \<and>
   ret (Into example_runtime
         (example_result (example_response 200 ''200 OK'' ''application/json''))
         (AnyTarget (example_error_writer\<lparr>asError := None, asHeaderer := Some None\<rparr>))) =
     Panicked \<and>
   calls (Into example_runtime
         (example_result (example_response 200 ''200 OK'' ''application/json''))
         (AnyTarget (example_error_writer\<lparr>asError := None, asHeaderer := Some None\<rparr>))) =
     [CallClose]"
  using Into_dispatch_order [where
      r = "example_result (example_response 200 ''200 OK'' ''application/json'')"
      and resp = "example_response 200 ''200 OK'' ''application/json''"
      and t = example_error_writer and e = "ExternalError ''buffer''" and rt = example_runtime]
    Into_dispatch_order [where
      r = "example_result (example_response 200 ''200 OK'' ''application/json'')"
      and resp = "example_response 200 ''200 OK'' ''application/json''"
      and t = "example_error_writer\<lparr>asError := None\<rparr>" and rt = example_runtime
      and w = "\<lparr>sink = [], writeErr = None\<rparr>" and b = "\<lparr>content = ''{}'', readErr = None\<rparr>"]
    Into_dispatch_order [where
      r = "example_result (example_response 200 ''200 OK'' ''application/json'')"
      and resp = "example_response 200 ''200 OK'' ''application/json''"
      and t = "example_error_writer\<lparr>asError := None, asHeaderer := Some None\<rparr>"
      and rt = example_runtime
      and w = "\<lparr>sink = [], writeErr = None\<rparr>" and b = "\<lparr>content = ''{}'', readErr = None\<rparr>"]
  by (simp add: example_result_def example_response_def example_error_writer_def isOk_iff
        io_Copy_def HasPrefix_def)

text \<open>
  Whatever the content type, the media type that \<^verbatim>\<open>ParseMediaType\<close> returns holds no
  parameter: it is empty, or the text before the first semicolon in lower case, trimmed.
\<close>

lemma ParseMediaType_strips_parameters:
  "ParseMediaType v = [] \<or>
   ParseMediaType v = TrimSpace (ToLower (takeWhile (\<lambda>c. c \<noteq> CHR '';'') v))"
  by (simp add: ParseMediaType_def Let_def split: param_scan.splits)

lemma ParseMediaType_json_charset:
  "ParseMediaType ''application/json; charset=utf-8'' = ''application/json''"
  by code_simp

lemma ParseMediaType_json: "ParseMediaType ''application/json'' = ''application/json''"
  by code_simp

lemma Into_structured_target:
  assumes "Response r = Some resp" and "Err r = None" and "isOk (StatusCode resp)"
    and "Result.TransformerMgr r = Some mgr" and "asError t = None" and "asWriter t = None"
    and "mime = (let contentType = Metadata_Get (Header resp) HeaderContentType
                 in if contentType \<noteq> [] then ParseMediaType contentType else contentType)"
  shows "hd (calls (Into rt r (AnyTarget t))) = CallNewTransformer (rtype t) mime"
    and "(case mgr (rtype t) mime of
            Inl err \<Rightarrow>
              ret (Into rt r (AnyTarget t)) =
                Returned (Header resp, Some (ClientError ReadFailed (Error rt err))) \<and>
              target_out (Into rt r (AnyTarget t)) = AnyTarget t
          | Inr transformer \<Rightarrow>
              ret (Into rt r (AnyTarget t)) =
                Returned (Header resp,
                  map_option (\<lambda>err. ClientError ReadFailed (Error rt err))
                    (snd (DecodeFromReader transformer (Body resp) (rvalue t) (Header resp)))) \<and>
              target_out (Into rt r (AnyTarget t)) =
                AnyTarget (t\<lparr>rvalue :=
                  fst (DecodeFromReader transformer (Body resp) (rvalue t) (Header resp))\<rparr>))"
  using assms
  by (auto simp: Into_def Into_body_def Let_def returns_def panics_def Into_switch_def
           split: option.splits sum.splits prod.splits)

lemma ParseMediaType_base:
  assumes "CHR '';'' \<notin> set m" and "checkMediaTypeDisposition (TrimSpace (ToLower m))"
  shows "ParseMediaType m = TrimSpace (ToLower m)"
proof -
  have base: "takeWhile (\<lambda>c. c \<noteq> CHR '';'') m = m"
    using assms(1) by (auto simp: takeWhile_eq_all_conv)
  show ?thesis
    unfolding ParseMediaType_def Let_def base
    using assms(2) by (simp add: mediaParams.simps)
qed

lemma ParseMediaType_parameters:
  assumes "CHR '';'' \<notin> set m" and "checkMediaTypeDisposition (TrimSpace (ToLower m))"
    and "mediaParams (CHR '';'' # ps) [] \<noteq> DuplicateParameter"
  shows "ParseMediaType (m @ CHR '';'' # ps) = TrimSpace (ToLower m)"
proof -
  have "takeWhile (\<lambda>c. c \<noteq> CHR '';'') (m @ CHR '';'' # ps) = m"
    using assms(1) by (subst takeWhile_append2) auto
  then show ?thesis
    using assms(2,3) by (simp add: ParseMediaType_def Let_def split: param_scan.splits)
qed

lemma checkMediaTypeDisposition_Nil: "\<not> checkMediaTypeDisposition []"
  by (simp add: checkMediaTypeDisposition_def consumeToken_def)

lemma application_json_parameters:
  "CHR '';'' \<notin> set ''application/json''"
  "TrimSpace (ToLower ''application/json'') = ''application/json''"
  "checkMediaTypeDisposition ''application/json''"
  "mediaParams (CHR '';'' # '' charset=utf-8'') [] \<noteq> DuplicateParameter"
  by code_simp+

text \<open>
  Claim C6. For a structured target (neither an \<^verbatim>\<open>error\<close> nor an \<^verbatim>\<open>io.Writer\<close>)
  and responses with a status code in [200, 300), read by results with the same manager.
  First, whatever the content type of a response, \<^verbatim>\<open>Into\<close> first asks the manager for
  the transformer of the target's type and of a MIME without parameters: the empty MIME,
  or the text of the content type before its first semicolon, in lower case and trimmed;
  what \<^verbatim>\<open>Into\<close> returns and stores is what the manager's answer for that MIME gives.
  Second, for a media type \<^verbatim>\<open>m\<close> (no semicolon, of the form \<^verbatim>\<open>token\<close> or
  \<^verbatim>\<open>token/token\<close>) and parameters \<^verbatim>\<open>ps\<close> with no repeated name, a response with
  the content type \<^verbatim>\<open>m;ps\<close> and one with \<^verbatim>\<open>m\<close> make the same lookup, for \<^verbatim>\<open>m\<close> in
  lower case and trimmed, and so get the same answer. Third, this is so for
  \<^verbatim>\<open>application/json; charset=utf-8\<close> and \<^verbatim>\<open>application/json\<close>, whose lookup is for
  \<^verbatim>\<open>application/json\<close>.
\<close>

theorem Into_strips_mime_parameters:
  assumes "Response r = Some resp" and "Response r' = Some resp'"
    and "Err r = None" and "Err r' = None"
    and "isOk (StatusCode resp)" and "isOk (StatusCode resp')"
    and "Result.TransformerMgr r = Some mgr" and "Result.TransformerMgr r' = Some mgr"
    and "asError t = None" and "asWriter t = None"
  shows "(\<exists>mime.
            (mime = [] \<or>
             mime = TrimSpace (ToLower (takeWhile (\<lambda>c. c \<noteq> CHR '';'')
                      (Metadata_Get (Header resp) HeaderContentType)))) \<and>
            hd (calls (Into rt r (AnyTarget t))) = CallNewTransformer (rtype t) mime \<and>
            (case mgr (rtype t) mime of
               Inl err \<Rightarrow>
                 ret (Into rt r (AnyTarget t)) =
                   Returned (Header resp, Some (ClientError ReadFailed (Error rt err))) \<and>
                 target_out (Into rt r (AnyTarget t)) = AnyTarget t
             | Inr transformer \<Rightarrow>
                 ret (Into rt r (AnyTarget t)) =
                   Returned (Header resp,
                     map_option (\<lambda>err. ClientError ReadFailed (Error rt err))
                       (snd (DecodeFromReader transformer (Body resp) (rvalue t) (Header resp)))) \<and>
                 target_out (Into rt r (AnyTarget t)) =
                   AnyTarget (t\<lparr>rvalue :=
                     fst (DecodeFromReader transformer (Body resp) (rvalue t) (Header resp))\<rparr>))) \<and>
         (Metadata_Get (Header resp) HeaderContentType = m @ CHR '';'' # ps \<longrightarrow>
          Metadata_Get (Header resp') HeaderContentType = m \<longrightarrow>
          CHR '';'' \<notin> set m \<longrightarrow>
          checkMediaTypeDisposition (TrimSpace (ToLower m)) \<longrightarrow>
          mediaParams (CHR '';'' # ps) [] \<noteq> DuplicateParameter \<longrightarrow>
            hd (calls (Into rt r (AnyTarget t))) =
              CallNewTransformer (rtype t) (TrimSpace (ToLower m)) \<and>
            hd (calls (Into rt r' (AnyTarget t))) =
              CallNewTransformer (rtype t) (TrimSpace (ToLower m)) \<and>
            (case mgr (rtype t) (TrimSpace (ToLower m)) of
               Inl err \<Rightarrow>
                 ret (Into rt r (AnyTarget t)) =
                   Returned (Header resp, Some (ClientError ReadFailed (Error rt err))) \<and>
                 ret (Into rt r' (AnyTarget t)) =
                   Returned (Header resp', Some (ClientError ReadFailed (Error rt err)))
             | Inr transformer \<Rightarrow>
                 target_out (Into rt r (AnyTarget t)) =
                   AnyTarget (t\<lparr>rvalue :=
                     fst (DecodeFromReader transformer (Body resp) (rvalue t) (Header resp))\<rparr>) \<and>
                 target_out (Into rt r' (AnyTarget t)) =
                   AnyTarget (t\<lparr>rvalue :=
                     fst (DecodeFromReader transformer (Body resp') (rvalue t) (Header resp'))\<rparr>))) \<and>
         (Metadata_Get (Header resp) HeaderContentType = ''application/json; charset=utf-8'' \<longrightarrow>
          Metadata_Get (Header resp') HeaderContentType = ''application/json'' \<longrightarrow>
            hd (calls (Into rt r (AnyTarget t))) =
              CallNewTransformer (rtype t) ''application/json'' \<and>
            hd (calls (Into rt r' (AnyTarget t))) =
              CallNewTransformer (rtype t) ''application/json'' \<and>
            (case mgr (rtype t) ''application/json'' of
               Inl err \<Rightarrow>
                 ret (Into rt r (AnyTarget t)) =
                   Returned (Header resp, Some (ClientError ReadFailed (Error rt err))) \<and>
                 ret (Into rt r' (AnyTarget t)) =
                   Returned (Header resp', Some (ClientError ReadFailed (Error rt err)))
             | Inr transformer \<Rightarrow>
                 target_out (Into rt r (AnyTarget t)) =
                   AnyTarget (t\<lparr>rvalue :=
                     fst (DecodeFromReader transformer (Body resp) (rvalue t) (Header resp))\<rparr>) \<and>
                 target_out (Into rt r' (AnyTarget t)) =
                   AnyTarget (t\<lparr>rvalue :=
                     fst (DecodeFromReader transformer (Body resp') (rvalue t) (Header resp'))\<rparr>)))"
proof -
  define mime_a where "mime_a =
    (let contentType = Metadata_Get (Header resp) HeaderContentType
     in if contentType \<noteq> [] then ParseMediaType contentType else contentType)"
  define mime_b where "mime_b =
    (let contentType = Metadata_Get (Header resp') HeaderContentType
     in if contentType \<noteq> [] then ParseMediaType contentType else contentType)"
  note a = Into_structured_target [OF assms(1,3,5,7,9,10) mime_a_def, of rt]
  note b = Into_structured_target [OF assms(2,4,6,8,9,10) mime_b_def, of rt]
  have stripped: "mime_a = [] \<or>
      mime_a = TrimSpace (ToLower (takeWhile (\<lambda>c. c \<noteq> CHR '';'')
                (Metadata_Get (Header resp) HeaderContentType)))"
    using ParseMediaType_strips_parameters [of "Metadata_Get (Header resp) HeaderContentType"]
    by (auto simp: mime_a_def Let_def)
  have general: "\<exists>mime.
      (mime = [] \<or>
       mime = TrimSpace (ToLower (takeWhile (\<lambda>c. c \<noteq> CHR '';'')
                (Metadata_Get (Header resp) HeaderContentType)))) \<and>
      hd (calls (Into rt r (AnyTarget t))) = CallNewTransformer (rtype t) mime \<and>
      (case mgr (rtype t) mime of
         Inl err \<Rightarrow>
           ret (Into rt r (AnyTarget t)) =
             Returned (Header resp, Some (ClientError ReadFailed (Error rt err))) \<and>
           target_out (Into rt r (AnyTarget t)) = AnyTarget t
       | Inr transformer \<Rightarrow>
           ret (Into rt r (AnyTarget t)) =
             Returned (Header resp,
               map_option (\<lambda>err. ClientError ReadFailed (Error rt err))
                 (snd (DecodeFromReader transformer (Body resp) (rvalue t) (Header resp)))) \<and>
           target_out (Into rt r (AnyTarget t)) =
             AnyTarget (t\<lparr>rvalue :=
               fst (DecodeFromReader transformer (Body resp) (rvalue t) (Header resp))\<rparr>))"
    using stripped a by (intro exI [of _ mime_a]) simp
  have pair: "hd (calls (Into rt r (AnyTarget t))) = CallNewTransformer (rtype t) mime \<and>
      hd (calls (Into rt r' (AnyTarget t))) = CallNewTransformer (rtype t) mime \<and>
      (case mgr (rtype t) mime of
         Inl err \<Rightarrow>
           ret (Into rt r (AnyTarget t)) =
             Returned (Header resp, Some (ClientError ReadFailed (Error rt err))) \<and>
           ret (Into rt r' (AnyTarget t)) =
             Returned (Header resp', Some (ClientError ReadFailed (Error rt err)))
       | Inr transformer \<Rightarrow>
           target_out (Into rt r (AnyTarget t)) =
             AnyTarget (t\<lparr>rvalue :=
               fst (DecodeFromReader transformer (Body resp) (rvalue t) (Header resp))\<rparr>) \<and>
           target_out (Into rt r' (AnyTarget t)) =
             AnyTarget (t\<lparr>rvalue :=
               fst (DecodeFromReader transformer (Body resp') (rvalue t) (Header resp'))\<rparr>))"
    if "mime_a = mime" and "mime_b = mime" for mime
    using a b that by (simp split: sum.splits)
  have params: "mime_a = TrimSpace (ToLower m') \<and> mime_b = TrimSpace (ToLower m')"
    if "Metadata_Get (Header resp) HeaderContentType = m' @ CHR '';'' # ps'"
      and "Metadata_Get (Header resp') HeaderContentType = m'"
      and "CHR '';'' \<notin> set m'"
      and "checkMediaTypeDisposition (TrimSpace (ToLower m'))"
      and "mediaParams (CHR '';'' # ps') [] \<noteq> DuplicateParameter" for m' ps'
  proof -
    have "m' \<noteq> []"
      using that(4) by (auto simp: TrimSpace_def ToLower_def checkMediaTypeDisposition_Nil)
    then show ?thesis
      using that
      by (simp add: mime_a_def mime_b_def Let_def ParseMediaType_base ParseMediaType_parameters)
  qed
  have json: "mime_a = ''application/json'' \<and> mime_b = ''application/json''"
    if "Metadata_Get (Header resp) HeaderContentType = ''application/json; charset=utf-8''"
      and "Metadata_Get (Header resp') HeaderContentType = ''application/json''"
    using params [of "''application/json''" "'' charset=utf-8''"] that
      application_json_parameters
    by simp
  show ?thesis
    using general pair params json by blast
qed

theorem Into_strips_mime_parameters_witness:
  "Metadata_Get (Header (example_response 200 ''200 OK'' ''application/json; charset=utf-8''))
     HeaderContentType = ''application/json'' @ CHR '';'' # '' charset=utf-8'' \<and>
   Metadata_Get (Header (example_response 200 ''200 OK'' ''application/json''))
     HeaderContentType = ''application/json'' \<and>
   CHR '';'' \<notin> set ''application/json'' \<and>
   checkMediaTypeDisposition (TrimSpace (ToLower ''application/json'')) \<and>
   mediaParams (CHR '';'' # '' charset=utf-8'') [] \<noteq> DuplicateParameter \<and>
   asError example_target = None \<and> asWriter example_target = None \<and>
   hd (calls (Into example_runtime
        (example_result (example_response 200 ''200 OK'' ''application/json; charset=utf-8''))
        (AnyTarget example_target))) = CallNewTransformer ''*Item'' ''application/json'' \<and>
   hd (calls (Into example_runtime
        (example_result (example_response 200 ''200 OK'' ''application/json''))
        (AnyTarget example_target))) = CallNewTransformer ''*Item'' ''application/json'' \<and>
   target_out (Into example_runtime
        (example_result (example_response 200 ''200 OK'' ''application/json; charset=utf-8''))
        (AnyTarget example_target)) = AnyTarget (example_target\<lparr>rvalue := ''{}''\<rparr>) \<and>
   target_out (Into example_runtime
        (example_result (example_response 200 ''200 OK'' ''application/json''))
        (AnyTarget example_target)) = AnyTarget (example_target\<lparr>rvalue := ''{}''\<rparr>)"
proof -
  have ct1: "Metadata_Get (Header (example_response 200 ''200 OK'' ''application/json; charset=utf-8''))
      HeaderContentType = ''application/json'' @ CHR '';'' # '' charset=utf-8''"
    and ct2: "Metadata_Get (Header (example_response 200 ''200 OK'' ''application/json''))
      HeaderContentType = ''application/json''"
    by (simp_all add: example_response_def Metadata_Get_def values_of_def HeaderContentType_def)
  have results:
    "Response (example_result resp) = Some resp" "Err (example_result resp) = None"
    "Result.TransformerMgr (example_result resp) = Some example_mgr" for resp
    by (simp_all add: example_result_def)
  have ok: "isOk (StatusCode (example_response 200 status ctype))" for status ctype
    by (simp add: example_response_def isOk_iff)
  have target: "asError example_target = None" "asWriter example_target = None"
    "rtype example_target = ''*Item''" "rvalue example_target = []"
    by (simp_all add: example_target_def)
  have decode: "example_mgr ty ''application/json'' = Inr example_transformer"
    "fst (DecodeFromReader example_transformer (Body (example_response 200 status ctype)) v h) = ''{}''"
    for ty status ctype v h
    by (simp_all add: example_mgr_def example_transformer_def example_response_def)
  note inst = Into_strips_mime_parameters [where
      r = "example_result (example_response 200 ''200 OK'' ''application/json; charset=utf-8'')"
      and resp = "example_response 200 ''200 OK'' ''application/json; charset=utf-8''"
      and r' = "example_result (example_response 200 ''200 OK'' ''application/json'')"
      and resp' = "example_response 200 ''200 OK'' ''application/json''"
      and mgr = example_mgr and t = example_target
      and m = "''application/json''" and ps = "'' charset=utf-8''" and rt = example_runtime,
      OF results(1) results(1) results(2) results(2) ok ok results(3) results(3) target(1,2)]
  from inst have "hd (calls (Into example_runtime
        (example_result (example_response 200 ''200 OK'' ''application/json; charset=utf-8''))
        (AnyTarget example_target))) = CallNewTransformer ''*Item'' ''application/json'' \<and>
      hd (calls (Into example_runtime
        (example_result (example_response 200 ''200 OK'' ''application/json''))
        (AnyTarget example_target))) = CallNewTransformer ''*Item'' ''application/json'' \<and>
      target_out (Into example_runtime
        (example_result (example_response 200 ''200 OK'' ''application/json; charset=utf-8''))
        (AnyTarget example_target)) = AnyTarget (example_target\<lparr>rvalue := ''{}''\<rparr>) \<and>
      target_out (Into example_runtime
        (example_result (example_response 200 ''200 OK'' ''application/json''))
        (AnyTarget example_target)) = AnyTarget (example_target\<lparr>rvalue := ''{}''\<rparr>)"
    using ct1 ct2 application_json_parameters
    by (simp add: target decode)
  then show ?thesis
    using ct1 ct2 application_json_parameters target by simp
qed


section \<open>Properties of the client\<close>

lemma sint_times_million:
  assumes "- 9223372036854 \<le> sint (code :: go_int)" and "sint code \<le> 9223372036854"
  shows "sint (code * 1000000) = sint code * 1000000"
proof -
  have "sint (code * 1000000) = signed_take_bit 63 (sint code * 1000000)"
    by (simp add: sint_word_ariths)
  also have "\<dots> = sint code * 1000000"
    using assms by (intro signed_take_bit_int_eq_self) simp_all
  finally show ?thesis .
qed

text \<open>
  Claim C9. For a client without an error policy, \<^verbatim>\<open>SetDefaults\<close> installs the
  default one, and the default policy maps a response with a request to a
  \<^verbatim>\<open>StatusErr\<close> whose code is the status code times 1000000 in Go's \<^verbatim>\<open>int\<close>,
  whose message is the status text, and whose only source is the host of the request. The
  product does not wrap for a status code of absolute value up to 9223372036854, which
  includes every three-digit status code.
\<close>

theorem SetDefaults_default_error_policy:
  assumes "Client.NewError c = None"
  shows "Client.NewError (SetDefaults defaultMgr logRoundTripper c) = Some defaultNewError \<and>
         (Request resp = Some request \<longrightarrow>
            defaultNewError resp =
              Returned (Some (StatusErrPtr
                \<lparr>Code = StatusCode resp * 1000000, Msg = Status resp,
                 Sources = [ReqHost request]\<rparr>)) \<and>
            (- 9223372036854 \<le> sint (StatusCode resp) \<and> sint (StatusCode resp) \<le> 9223372036854 \<longrightarrow>
               sint (StatusCode resp * 1000000) = sint (StatusCode resp) * 1000000))"
  using assms
  by (auto simp: SetDefaults_def Let_def defaultNewError_def sint_times_million)

theorem SetDefaults_default_error_policy_witness:
  "Client.NewError example_client = None \<and>
   Client.NewError (SetDefaults example_request_mgr id example_client) = Some defaultNewError \<and>
   defaultNewError (example_response 404 ''404 Not Found'' ''application/json'') =
     Returned (Some (StatusErrPtr
       \<lparr>Code = 404000000, Msg = ''404 Not Found'', Sources = [''api.example.com'']\<rparr>)) \<and>
   sint (404 * 1000000 :: go_int) = 404 * 1000000"
  using SetDefaults_default_error_policy [where c = example_client
      and resp = "example_response 404 ''404 Not Found'' ''application/json''"
      and request = example_request and defaultMgr = example_request_mgr
      and logRoundTripper = id]
  by (simp add: example_client_def example_response_def example_request_def)

lemma values_of_update:
  "values_of (AList.update k v h) key = (if key = k then v else values_of h key)"
  by (simp add: values_of_def update_conv')

lemma values_of_Header_Add:
  "values_of (Header_Add k v h) key =
     values_of h key @ (if CanonicalMIMEHeaderKey k = key then [v] else [])"
  by (auto simp: Header_Add_def Let_def values_of_update)

lemma values_of_add_values:
  "values_of (fold (\<lambda>v header. Header_Add k v header) vs h) key =
     values_of h key @ (if CanonicalMIMEHeaderKey k = key then vs else [])"
  by (induction vs arbitrary: h) (simp_all add: values_of_Header_Add)

lemma values_of_add_metadata:
  "values_of (fold (\<lambda>(k, vs) header. fold (\<lambda>v header. Header_Add k v header) vs header) m h) key =
     values_of h key @
       concat (map snd (filter (\<lambda>(k, vs). CanonicalMIMEHeaderKey k = key) m))"
  by (induction m arbitrary: h) (auto simp: values_of_add_values)

lemma CanonicalMIMEHeaderKey_X: "CanonicalMIMEHeaderKey ''X'' = ''X''"
  by code_simp

text \<open>
  Claim C7. When \<^verbatim>\<open>NewRequest\<close> builds a request from the descriptor,
  \<^verbatim>\<open>newRequest\<close> returns it with the same method and URL, and under every header key
  the values are those that \<^verbatim>\<open>NewRequest\<close> produced, in their order, followed by the
  values of the caller's merged metadata whose key has that canonical form: nothing is
  replaced. With \<^verbatim>\<open>X: a\<close> from the descriptor and \<^verbatim>\<open>X: b\<close> from the caller, the
  request carries \<^verbatim>\<open>a\<close> then \<^verbatim>\<open>b\<close> under \<^verbatim>\<open>X\<close>. The lemma
  \<open>values_of_add_metadata\<close> behind it holds for the entries of the metadata in any
  order, so the order in which the loop visits the map does not matter to it.
\<close>

theorem newRequest_appends_metadata:
  assumes "RequestTransformerMgr c = Some mgr"
    and "NewRequest mgr (case MethodDescriber req of Some m \<Rightarrow> m | None \<Rightarrow> [])
           (toUrl c (case PathDescriber req of Some p \<Rightarrow> p | None \<Rightarrow> [])) req = Inr built"
  shows "\<exists>request. newRequest rt c ctx req metas = Returned (Inr request) \<and>
           Method request = Method built \<and> URL request = URL built \<and>
           (\<forall>key. values_of (ReqHeader request) key =
              values_of (ReqHeader built) key @
                concat (map snd (filter (\<lambda>(k, vs). CanonicalMIMEHeaderKey k = key)
                  (FromMetas metas))))"
  using assms by (simp add: newRequest_def Let_def values_of_add_metadata)

lemma example_client_simps:
  "RequestTransformerMgr example_client = Some example_request_mgr"
  "HttpTransports example_client = None"
  "Client.NewError example_client = None"
  "Client.Timeout example_client = 0"
  by (simp_all add: example_client_def)

lemma toUrl_example:
  "toUrl example_client ''/items/42'' = ''http://api.example.com:443/items/42''"
  by (simp add: toUrl_def example_client_def fmt_d_443)

lemma NewRequest_example:
  "NewRequest example_request_mgr
     (case MethodDescriber (example_descriptor valid) of Some m \<Rightarrow> m | None \<Rightarrow> [])
     (toUrl example_client
        (case PathDescriber (example_descriptor valid) of Some p \<Rightarrow> p | None \<Rightarrow> []))
     (example_descriptor valid) =
   (if valid then Inr example_request else Inl (ExternalError ''missing path parameter''))"
  by (simp add: example_descriptor_def toUrl_example example_request_mgr_def example_request_def)

theorem newRequest_appends_metadata_witness:
  "values_of (ReqHeader example_request) ''X'' = [''a''] \<and>
   FromMetas [[(''X'', [''b''])]] = [(''X'', [''b''])] \<and>
   (\<exists>request.
      newRequest example_runtime example_client None (example_descriptor True)
        [[(''X'', [''b''])]] = Returned (Inr request) \<and>
      values_of (ReqHeader request) ''X'' = [''a'', ''b''])"
proof -
  have built: "NewRequest example_request_mgr
     (case MethodDescriber (example_descriptor True) of Some m \<Rightarrow> m | None \<Rightarrow> [])
     (toUrl example_client
        (case PathDescriber (example_descriptor True) of Some p \<Rightarrow> p | None \<Rightarrow> []))
     (example_descriptor True) = Inr example_request"
    by (simp add: NewRequest_example)
  have metas: "FromMetas [[(''X'', [''b''])]] = [(''X'', [''b''])]"
    by (simp add: FromMetas_def Metadata_Add_def values_of_def)
  have before: "values_of (ReqHeader example_request) ''X'' = [''a'']"
    by (simp add: example_request_def values_of_def)
  from newRequest_appends_metadata [OF example_client_simps(1) built,
      of example_runtime None "[[(''X'', [''b''])]]"]
  obtain request where
    "newRequest example_runtime example_client None (example_descriptor True)
       [[(''X'', [''b''])]] = Returned (Inr request)"
    and "values_of (ReqHeader request) ''X'' =
       values_of (ReqHeader example_request) ''X'' @
         concat (map snd (filter (\<lambda>(k, vs). CanonicalMIMEHeaderKey k = ''X'')
           (FromMetas [[(''X'', [''b''])]])))"
    by blast
  then show ?thesis
    by (simp add: metas before CanonicalMIMEHeaderKey_X)
qed

text \<open>
  Claim C8. For a client with a request transformer manager: when the round trip of the
  HTTP client in use (the one of the context, else a short-connection client) returns an
  error for the request sent, \<^verbatim>\<open>Do\<close> returns a \<^verbatim>\<open>Result\<close> with no response and
  the error \<^verbatim>\<open>RequestFailed\<close> described by that error's text; when
  \<^verbatim>\<open>NewRequest\<close> fails on the descriptor, \<^verbatim>\<open>Do\<close> returns a \<^verbatim>\<open>Result\<close> with no
  response and the error \<^verbatim>\<open>RequestFailed\<close> described by the text of the
  \<^verbatim>\<open>RequestTransformFailed\<close> error that wraps the failure.
\<close>

theorem Do_request_failed:
  assumes "RequestTransformerMgr c = Some mgr"
  shows "((case req of
             HttpRequest request \<Rightarrow> Returned (Inr request)
           | Descriptor d \<Rightarrow> newRequest rt c ctx d metas) = Returned (Inr request) \<longrightarrow>
          snd (http_Client_Do rt
                 (case ClientFromContext ctx of
                    None \<Rightarrow> GetShortConnClient rt (Client.Timeout c) (HttpTransports c)
                  | Some cl \<Rightarrow> cl) request) = Some err \<longrightarrow>
          Do rt c ctx req metas =
            Returned \<lparr>Response = None,
                      Result.TransformerMgr = RequestTransformerMgr.TransformerMgr mgr,
                      Result.NewError = Client.NewError c,
                      Err = Some (ClientError RequestFailed (Error rt err))\<rparr>) \<and>
         (NewRequest mgr (case MethodDescriber d of Some m \<Rightarrow> m | None \<Rightarrow> [])
            (toUrl c (case PathDescriber d of Some p \<Rightarrow> p | None \<Rightarrow> [])) d = Inl e \<longrightarrow>
          Do rt c ctx (Descriptor d) metas =
            Returned \<lparr>Response = None,
                      Result.TransformerMgr = RequestTransformerMgr.TransformerMgr mgr,
                      Result.NewError = Client.NewError c,
                      Err = Some (ClientError RequestFailed
                        (Error rt (ClientError RequestTransformFailed (Error rt e))))\<rparr>)"
  using assms
  by (auto simp: Do_def newResult_def newRequest_def Let_def split: prod.splits)

theorem Do_request_failed_witness:
  "Do example_runtime example_client None (Descriptor (example_descriptor True)) [] =
     Returned \<lparr>Response = None, Result.TransformerMgr = Some example_mgr,
               Result.NewError = None,
               Err = Some (ClientError RequestFailed ''connection refused'')\<rparr> \<and>
   Do example_runtime example_client None (Descriptor (example_descriptor False)) [] =
     Returned \<lparr>Response = None, Result.TransformerMgr = Some example_mgr,
               Result.NewError = None,
               Err = Some (ClientError RequestFailed ''missing path parameter'')\<rparr>"
proof -
  have sent: "(case Descriptor (example_descriptor True) of
                 HttpRequest request \<Rightarrow> Returned (Inr request)
               | Descriptor d \<Rightarrow> newRequest example_runtime example_client None d []) =
              Returned (Inr example_request)"
    by (simp add: newRequest_def example_client_simps NewRequest_example FromMetas_def
          Background_def example_request_def)
  have refused: "snd (http_Client_Do example_runtime
      (case ClientFromContext None of
         None \<Rightarrow> GetShortConnClient example_runtime (Client.Timeout example_client)
                   (HttpTransports example_client)
       | Some cl \<Rightarrow> cl) example_request) = Some (ExternalError ''connection refused'')"
    by (simp add: ClientFromContext_def GetShortConnClient_def example_client_simps
          example_runtime_def)
  have failed: "NewRequest example_request_mgr
     (case MethodDescriber (example_descriptor False) of Some m \<Rightarrow> m | None \<Rightarrow> [])
     (toUrl example_client
        (case PathDescriber (example_descriptor False) of Some p \<Rightarrow> p | None \<Rightarrow> []))
     (example_descriptor False) = Inl (ExternalError ''missing path parameter'')"
    by (simp add: NewRequest_example)
  have texts: "Error example_runtime (ExternalError msg) = msg"
    "Error example_runtime (ClientError k desc) = desc" for msg k desc
    by (simp_all add: example_runtime_def)
  show ?thesis
    using Do_request_failed [OF example_client_simps(1),
        where req = "Descriptor (example_descriptor True)" and rt = example_runtime
          and ctx = None and metas = "[]" and request = example_request
          and err = "ExternalError ''connection refused''" and d = "example_descriptor False"
          and e = "ExternalError ''missing path parameter''"]
      sent refused failed
    by (simp add: texts example_client_simps example_request_mgr_def)
qed

text \<open>
  A \<^verbatim>\<open>Result\<close> returned by \<^verbatim>\<open>Do\<close> holds a response or a pre-flight error, not
  both and not neither, when the HTTP client returns a response whenever it returns no
  error. This is the invariant that the properties of \<^verbatim>\<open>Into\<close> for a result with a
  response take as \<open>Err r = None\<close>.
\<close>

lemma Do_result_has_response_or_error:
  assumes "Do rt c ctx req metas = Returned r"
    and "\<And>cl rq resp. http_Client_Do rt cl rq = (resp, None) \<Longrightarrow> resp \<noteq> None"
  shows "(Err r = None) \<noteq> (Response r = None)"
  using assms
  by (auto simp: Do_def newResult_def Let_def
           split: option.splits outcome.splits sum.splits prod.splits)

end
